theory Spec2Isabelle
  imports Complex_Main
begin

section \<open>Request governance of the Yahoo Finance tool server (server.py)\<close>

text \<open>
  The module keeps three pieces of process-wide state: the list of timestamps of the
  admitted requests, the last admitted request per ticker, and the result cache. Every
  function below is the source function of the same name with that state passed in and
  returned. A reading of \<^verbatim>\<open>time.monotonic()\<close> is the argument \<open>now\<close> of the function that
  reads it; Python floats are modelled as real numbers. A raised exception is a value
  \<open>Inl e\<close> of a sum type.
\<close>

subsection \<open>Configuration and state\<close>

record config =
  GLOBAL_WINDOW_SECONDS :: real
  GLOBAL_MAX_REQUESTS :: int
  PER_TICKER_MIN_INTERVAL_SECONDS :: real
  CACHE_TTL_SECONDS :: real
  MAX_RETRIES :: int
  BACKOFF_BASE_SECONDS :: real

text \<open>The values the module takes when no environment variable is set.\<close>

definition default_config :: config where
  "default_config =
     \<lparr>GLOBAL_WINDOW_SECONDS = 60, GLOBAL_MAX_REQUESTS = 30,
      PER_TICKER_MIN_INTERVAL_SECONDS = 2, CACHE_TTL_SECONDS = 60,
      MAX_RETRIES = 2, BACKOFF_BASE_SECONDS = 3 / 2\<rparr>"

datatype py_exc = PyExc (exc_class: string) (exc_message: string)

text \<open>A cache key is a tuple of the operation name and the arguments: strings, and the
  integer \<open>months_back\<close> of \<open>get_recommendations\<close>.\<close>

datatype py_arg = PyStr string | PyInt int

type_synonym cache_key = "py_arg list"

record state =
  global_request_timestamps :: "real list"
  last_ticker_request :: "string \<rightharpoonup> real"
  cache :: "cache_key \<rightharpoonup> (real \<times> string)"

definition initial_state :: state where
  "initial_state =
     \<lparr>global_request_timestamps = [], last_ticker_request = Map.empty, cache = Map.empty\<rparr>"

subsection \<open>The limiters\<close>

text \<open>The loop of \<open>_prune_global_timestamps\<close>: pop the head while it is older than the cutoff.\<close>

fun prune_loop :: "real \<Rightarrow> real list \<Rightarrow> real list" where
  "prune_loop cutoff [] = []"
| "prune_loop cutoff (t # ts) = (if t < cutoff then prune_loop cutoff ts else t # ts)"

definition prune_global_timestamps :: "config \<Rightarrow> real \<Rightarrow> state \<Rightarrow> state" where
  "prune_global_timestamps cfg now s =
     (let cutoff = now - GLOBAL_WINDOW_SECONDS cfg
      in s\<lparr>global_request_timestamps := prune_loop cutoff (global_request_timestamps s)\<rparr>)"

text \<open>The f-string \<^verbatim>\<open>f"Rate limited. Try after {retry_after:.1f}s."\<close>; the rendering of
  a float with one decimal is the parameter \<open>fmt\<close> (the format \<open>.1f\<close>).\<close>

definition rate_limited_message :: "(real \<Rightarrow> string) \<Rightarrow> real \<Rightarrow> string" where
  "rate_limited_message fmt retry_after =
     ''Rate limited. Try after '' @ fmt retry_after @ ''s.''"

text \<open>Lines 51 to 53 of \<open>_rate_limit_check\<close>: the request is admitted and recorded.\<close>

definition record_request :: "string \<Rightarrow> real \<Rightarrow> state \<Rightarrow> state" where
  "record_request ticker now s =
     s\<lparr>global_request_timestamps := global_request_timestamps s @ [now],
       last_ticker_request := (last_ticker_request s)(ticker \<mapsto> now)\<rparr>"

text \<open>\<open>_rate_limit_check\<close>. Reading \<open>_global_request_timestamps[0]\<close> on an empty list
  raises IndexError (it can only happen when the configured maximum is not positive).\<close>

definition rate_limit_check ::
  "(real \<Rightarrow> string) \<Rightarrow> config \<Rightarrow> string \<Rightarrow> real \<Rightarrow> state
     \<Rightarrow> (py_exc + bool \<times> string option) \<times> state" where
  "rate_limit_check fmt cfg ticker now s0 =
     (let s = prune_global_timestamps cfg now s0 in
      if int (length (global_request_timestamps s)) \<ge> GLOBAL_MAX_REQUESTS cfg then
        (case global_request_timestamps s of
           [] \<Rightarrow> (Inl (PyExc ''IndexError'' ''list index out of range''), s)
         | oldest # _ \<Rightarrow>
             (let retry_after = GLOBAL_WINDOW_SECONDS cfg - (now - oldest)
              in (Inr (True, Some (rate_limited_message fmt retry_after)), s)))
      else
        (case last_ticker_request s ticker of
           None \<Rightarrow> (Inr (False, None), record_request ticker now s)
         | Some last_seen \<Rightarrow>
             (let elapsed = now - last_seen in
              if elapsed < PER_TICKER_MIN_INTERVAL_SECONDS cfg then
                (let retry_after = PER_TICKER_MIN_INTERVAL_SECONDS cfg - elapsed
                 in (Inr (True, Some (rate_limited_message fmt retry_after)), s))
              else (Inr (False, None), record_request ticker now s))))"

subsection \<open>The result cache\<close>

definition cache_get :: "cache_key \<Rightarrow> real \<Rightarrow> state \<Rightarrow> string option \<times> state" where
  "cache_get cache_key now s =
     (case cache s cache_key of
        None \<Rightarrow> (None, s)
      | Some (expires_at, v) \<Rightarrow>
          if now \<ge> expires_at then (None, s\<lparr>cache := (cache s)(cache_key := None)\<rparr>)
          else (Some v, s))"

definition cache_set :: "config \<Rightarrow> cache_key \<Rightarrow> string \<Rightarrow> real \<Rightarrow> state \<Rightarrow> state" where
  "cache_set cfg cache_key v now s =
     (let expires_at = now + CACHE_TTL_SECONDS cfg
      in s\<lparr>cache := (cache s)(cache_key \<mapsto> (expires_at, v))\<rparr>)"

subsection \<open>The retry executor\<close>

text \<open>\<open>str.lower\<close> and the \<open>in\<close> test on strings. Strings are lists of 8-bit characters;
  \<open>lower\<close> maps the letters A to Z and leaves every other character as it is.\<close>

definition lower_char :: "char \<Rightarrow> char" where
  "lower_char c =
     (case map_of (zip ''ABCDEFGHIJKLMNOPQRSTUVWXYZ'' ''abcdefghijklmnopqrstuvwxyz'') c of
        None \<Rightarrow> c | Some d \<Rightarrow> d)"

definition lower :: "string \<Rightarrow> string" where
  "lower s = map lower_char s"

fun starts_with :: "string \<Rightarrow> string \<Rightarrow> bool" where
  "starts_with [] s = True"
| "starts_with (p # ps) [] = False"
| "starts_with (p # ps) (c # cs) = (p = c \<and> starts_with ps cs)"

fun contains :: "string \<Rightarrow> string \<Rightarrow> bool" where
  "contains pat [] = (pat = [])"
| "contains pat (c # cs) = (starts_with pat (c # cs) \<or> contains pat cs)"

text \<open>\<open>_is_rate_limited_error\<close>; \<open>exc_message\<close> is \<open>str(exc)\<close>.\<close>

definition is_rate_limited_error :: "py_exc \<Rightarrow> bool" where
  "is_rate_limited_error exc =
     (let message = lower (exc_message exc)
      in contains ''too many requests'' message \<or> contains ''rate limited'' message)"

text \<open>\<open>random.uniform(a, b)\<close> is \<open>a + (b - a) * random()\<close>; \<open>u\<close> is the value of
  \<open>random()\<close>, a number of the unit interval.\<close>

definition uniform :: "real \<Rightarrow> real \<Rightarrow> real \<Rightarrow> real" where
  "uniform a b u = a + (b - a) * u"

text \<open>
  What a run of the executor does to the outside world, in order: each call of the
  fetcher with its outcome, and each \<open>asyncio.sleep\<close> with its delay. The outside world
  (the upstream service, the random generator) is a state \<open>'w\<close>; a fetcher is a function
  from the world to an outcome and a new world, so that successive calls may differ.
\<close>

datatype 'a retry_event = Invoked "py_exc + 'a" | Slept real

text \<open>The \<open>for\<close> loop of \<open>_execute_with_retry\<close> over the attempts that remain. The empty
  list is the code after the loop, \<open>raise last_error\<close>; raising \<open>None\<close> is a TypeError.\<close>

fun retry_loop ::
  "config \<Rightarrow> ('w \<Rightarrow> real \<times> 'w) \<Rightarrow> ('w \<Rightarrow> (py_exc + 'a) \<times> 'w) \<Rightarrow> nat list \<Rightarrow> py_exc option \<Rightarrow> 'w
     \<Rightarrow> (py_exc + 'a) \<times> 'w \<times> 'a retry_event list" where
  "retry_loop cfg random_unit fetcher [] last_error w =
     (case last_error of
        None \<Rightarrow> (Inl (PyExc ''TypeError'' ''exceptions must derive from BaseException''), w, [])
      | Some exc \<Rightarrow> (Inl exc, w, []))"
| "retry_loop cfg random_unit fetcher (attempt # rest) last_error w =
     (case fetcher w of
        (Inr v, w1) \<Rightarrow> (Inr v, w1, [Invoked (Inr v)])
      | (Inl exc, w1) \<Rightarrow>
          if \<not> is_rate_limited_error exc \<or> int attempt \<ge> MAX_RETRIES cfg then
            (Inl exc, w1, [Invoked (Inl exc)])
          else
            (let backoff = BACKOFF_BASE_SECONDS cfg * 2 ^ attempt;
                 (u, w2) = random_unit w1;
                 backoff = backoff + uniform 0 (0.3 * backoff) u;
                 (r, w3, evs) = retry_loop cfg random_unit fetcher rest (Some exc) w2
             in (r, w3, Invoked (Inl exc) # Slept backoff # evs)))"

text \<open>\<open>_execute_with_retry\<close>: the loop over \<open>range(_MAX_RETRIES + 1)\<close>, which is empty when
  \<open>_MAX_RETRIES + 1\<close> is not positive.\<close>

definition execute_with_retry ::
  "config \<Rightarrow> ('w \<Rightarrow> real \<times> 'w) \<Rightarrow> ('w \<Rightarrow> (py_exc + 'a) \<times> 'w) \<Rightarrow> 'w
     \<Rightarrow> (py_exc + 'a) \<times> 'w \<times> 'a retry_event list" where
  "execute_with_retry cfg random_unit fetcher w =
     retry_loop cfg random_unit fetcher [0 ..< nat (MAX_RETRIES cfg + 1)] None w"






subsection \<open>The outside world of a tool handler\<close>

text \<open>
  A handler reads the monotonic clock, calls the data provider through the retry
  executor, and turns the provider's data into text with pandas and json. These are
  parameters of the model, gathered in a record: \<open>'w\<close> is the state of the outside
  world and \<open>'d\<close> the provider's data.
  \<^item> \<open>monotonic\<close> is \<open>time.monotonic()\<close> and \<open>random_unit\<close> is \<open>random.random()\<close>;
  \<^item> \<open>fmt_1f\<close> renders a float with one decimal, \<open>fmt_enum\<close> renders a member of a
    \<open>(str, Enum)\<close> class in an f-string, from the name of the class and the member;
  \<^item> \<open>upstream ticker name args\<close> reads the attribute \<open>name\<close> of \<open>yf.Ticker(ticker)\<close>, or
    calls the method \<open>name\<close> with \<open>args\<close>; building the \<open>Ticker\<close> object itself reads
    nothing and is not modelled;
  \<^item> \<open>is_none\<close> is the test \<open>is None\<close>;
  \<^item> \<open>render how d\<close> is the conversion of the data to text named by \<open>how\<close>
    (\<open>to_json\<close>, \<open>json.dumps\<close>, the loop over the columns of a statement), which may raise;
  \<^item> \<open>story_lines\<close> is the loop of \<open>get_yahoo_finance_news\<close> that formats the items whose
    content type is STORY;
  \<^item> \<open>option_dates\<close> gives the expiration dates held by the \<open>options\<close> tuple;
  \<^item> \<open>recent_upgrades_json months_back d\<close> is the filtering of the upgrades and
    downgrades by \<open>pd.Timestamp.now()\<close> and their conversion to JSON; the
    \<open>reset_index()\<close> before it, inside the retried call, belongs to the fetch.
\<close>

record ('w, 'd) env =
  monotonic :: "'w \<Rightarrow> real \<times> 'w"
  random_unit :: "'w \<Rightarrow> real \<times> 'w"
  fmt_1f :: "real \<Rightarrow> string"
  fmt_enum :: "string \<Rightarrow> string \<Rightarrow> string"
  upstream :: "string \<Rightarrow> string \<Rightarrow> string list \<Rightarrow> 'w \<Rightarrow> (py_exc + 'd) \<times> 'w"
  is_none :: "'d \<Rightarrow> bool"
  render :: "string \<Rightarrow> 'd \<Rightarrow> py_exc + string"
  story_lines :: "'d \<Rightarrow> py_exc + string list"
  option_dates :: "'d \<Rightarrow> string list"
  recent_upgrades_json :: "int \<Rightarrow> 'd \<Rightarrow> 'w \<Rightarrow> (py_exc + string) \<times> 'w"

text \<open>What a handler did to the outside world: the calls of the provider (the attribute
  read, and the failure if it failed) and the sleeps, in order.\<close>

datatype effect = Fetch string "py_exc option" | Sleep real

fun erase :: "string \<Rightarrow> 'a retry_event \<Rightarrow> effect" where
  "erase name (Invoked (Inl exc)) = Fetch name (Some exc)"
| "erase name (Invoked (Inr v)) = Fetch name None"
| "erase name (Slept d) = Sleep d"

text \<open>The module state, the outside world and the effects so far.\<close>

record 'w machine =
  mem :: state
  world :: 'w
  effects :: "effect list"

text \<open>A handler returns a string; \<open>get_recommendations\<close> can also fall off its end, which
  returns \<open>None\<close>.\<close>

datatype py_ret = RStr string | RNone

subsection \<open>The steps every handler repeats\<close>

definition read_clock :: "('w, 'd) env \<Rightarrow> 'w machine \<Rightarrow> real \<times> 'w machine" where
  "read_clock env m = (let (now, w) = monotonic env (world m) in (now, m\<lparr>world := w\<rparr>))"

text \<open>\<open>await _execute_with_retry(fetcher)\<close>.\<close>

definition run_fetch ::
  "('w, 'd) env \<Rightarrow> config \<Rightarrow> string \<Rightarrow> ('w \<Rightarrow> (py_exc + 'a) \<times> 'w) \<Rightarrow> 'w machine
     \<Rightarrow> (py_exc + 'a) \<times> 'w machine" where
  "run_fetch env cfg name fetcher m =
     (let (r, w, evs) = execute_with_retry cfg (random_unit env) fetcher (world m)
      in (r, m\<lparr>world := w, effects := effects m @ map (erase name) evs\<rparr>))"

text \<open>\<open>message or "Rate limited. Try after a while."\<close>\<close>

definition message_or_default :: "string option \<Rightarrow> string" where
  "message_or_default message =
     (case message of
        None \<Rightarrow> ''Rate limited. Try after a while.''
      | Some text \<Rightarrow> if text = [] then ''Rate limited. Try after a while.'' else text)"

text \<open>
  The first lines of every handler: the cache lookup, which returns the cached value,
  and the rate-limit check, which returns the message. The result is \<open>Some\<close> of what the
  handler returns or raises here, or \<open>None\<close> when the handler goes on.
\<close>

definition check_cache_and_limits ::
  "('w, 'd) env \<Rightarrow> config \<Rightarrow> cache_key \<Rightarrow> string \<Rightarrow> 'w machine
     \<Rightarrow> (py_exc + py_ret) option \<times> 'w machine" where
  "check_cache_and_limits env cfg cache_key ticker m0 =
     (let (now, m1) = read_clock env m0;
          (cached, s1) = cache_get cache_key now (mem m1)
      in case cached of
           Some v \<Rightarrow> (Some (Inr (RStr v)), m1\<lparr>mem := s1\<rparr>)
         | None \<Rightarrow>
             (let (now, m2) = read_clock env (m1\<lparr>mem := s1\<rparr>)
              in case rate_limit_check (fmt_1f env) cfg ticker now (mem m2) of
                   (Inl exc, s2) \<Rightarrow> (Some (Inl exc), m2\<lparr>mem := s2\<rparr>)
                 | (Inr (rate_limited, message), s2) \<Rightarrow>
                     if rate_limited
                     then (Some (Inr (RStr (message_or_default message))), m2\<lparr>mem := s2\<rparr>)
                     else (None, m2\<lparr>mem := s2\<rparr>)))"

text \<open>\<^verbatim>\<open>f"Error: {what} for {ticker}: {e}"\<close> and \<^verbatim>\<open>f"Company ticker {ticker} not found."\<close>\<close>

definition error_message :: "string \<Rightarrow> string \<Rightarrow> py_exc \<Rightarrow> string" where
  "error_message what ticker e = ''Error: '' @ what @ '' for '' @ ticker @ '': '' @ exc_message e"

definition not_found_message :: "string \<Rightarrow> string" where
  "not_found_message ticker = ''Company ticker '' @ ticker @ '' not found.''"

text \<open>The \<open>try\<close> block that looks the ISIN up: \<open>Some\<close> of the string the handler returns
  when the lookup fails or finds nothing, \<open>None\<close> when the company is found.\<close>

definition lookup_isin ::
  "('w, 'd) env \<Rightarrow> config \<Rightarrow> string \<Rightarrow> string \<Rightarrow> 'w machine \<Rightarrow> string option \<times> 'w machine" where
  "lookup_isin env cfg what ticker m0 =
     (case run_fetch env cfg ''isin'' (upstream env ticker ''isin'' []) m0 of
        (Inl e, m1) \<Rightarrow> (Some (error_message what ticker e), m1)
      | (Inr isin, m1) \<Rightarrow>
          if is_none env isin then (Some (not_found_message ticker), m1) else (None, m1))"

text \<open>\<open>_cache_set(cache_key, result)\<close> followed by \<open>return result\<close>.\<close>

definition store_and_return ::
  "('w, 'd) env \<Rightarrow> config \<Rightarrow> cache_key \<Rightarrow> string \<Rightarrow> 'w machine \<Rightarrow> (py_exc + py_ret) \<times> 'w machine" where
  "store_and_return env cfg cache_key result m0 =
     (let (now, m1) = read_clock env m0
      in (Inr (RStr result), m1\<lparr>mem := cache_set cfg cache_key result now (mem m1)\<rparr>))"

text \<open>A fetcher that converts the data inside the retried call, as in
  \<^verbatim>\<open>lambda: company.recommendations.to_json(orient="records")\<close>.\<close>

definition fetch_and_render ::
  "('w, 'd) env \<Rightarrow> string \<Rightarrow> string \<Rightarrow> string \<Rightarrow> 'w \<Rightarrow> (py_exc + string) \<times> 'w" where
  "fetch_and_render env ticker name how w =
     (case upstream env ticker name [] w of
        (Inl e, w1) \<Rightarrow> (Inl e, w1)
      | (Inr d, w1) \<Rightarrow> (render env how d, w1))"

subsection \<open>The nine handlers\<close>

text \<open>
  Each handler is modelled from its first line to its return with no other coroutine
  running in between. An exception is an instance of \<open>Exception\<close>, the class the handlers and the
  retry executor catch.
\<close>

definition get_historical_stock_prices ::
  "('w, 'd) env \<Rightarrow> config \<Rightarrow> string \<Rightarrow> string \<Rightarrow> string \<Rightarrow> 'w machine
     \<Rightarrow> (py_exc + py_ret) \<times> 'w machine" where
  "get_historical_stock_prices env cfg ticker period interval m0 =
     (let cache_key = [PyStr ''get_historical_stock_prices'', PyStr ticker, PyStr period,
                       PyStr interval]
      in case check_cache_and_limits env cfg cache_key ticker m0 of
           (Some r, m1) \<Rightarrow> (r, m1)
         | (None, m1) \<Rightarrow>
        (case lookup_isin env cfg ''getting historical stock prices'' ticker m1 of
           (Some text, m2) \<Rightarrow> (Inr (RStr text), m2)
         | (None, m2) \<Rightarrow>
        (case run_fetch env cfg ''history'' (upstream env ticker ''history'' [period, interval]) m2 of
           (Inl e, m3) \<Rightarrow> (Inr (RStr (error_message ''getting historical stock prices'' ticker e)), m3)
         | (Inr hist_data, m3) \<Rightarrow>
        (case render env ''reset_index(names=Date).to_json(orient=records, date_format=iso)''
                hist_data of
           Inl e \<Rightarrow> (Inl e, m3)
         | Inr hist_json \<Rightarrow> store_and_return env cfg cache_key hist_json m3))))"

definition get_stock_info ::
  "('w, 'd) env \<Rightarrow> config \<Rightarrow> string \<Rightarrow> 'w machine \<Rightarrow> (py_exc + py_ret) \<times> 'w machine" where
  "get_stock_info env cfg ticker m0 =
     (let cache_key = [PyStr ''get_stock_info'', PyStr ticker]
      in case check_cache_and_limits env cfg cache_key ticker m0 of
           (Some r, m1) \<Rightarrow> (r, m1)
         | (None, m1) \<Rightarrow>
        (case lookup_isin env cfg ''getting stock information'' ticker m1 of
           (Some text, m2) \<Rightarrow> (Inr (RStr text), m2)
         | (None, m2) \<Rightarrow>
        (case run_fetch env cfg ''info'' (upstream env ticker ''info'' []) m2 of
           (Inl e, m3) \<Rightarrow> (Inr (RStr (error_message ''getting stock information'' ticker e)), m3)
         | (Inr info, m3) \<Rightarrow>
        (case render env ''json.dumps'' info of
           Inl e \<Rightarrow> (Inl e, m3)
         | Inr result \<Rightarrow> store_and_return env cfg cache_key result m3))))"

text \<open>\<^verbatim>\<open>"\n\n".join(news_list)\<close>\<close>

fun join_paragraphs :: "string list \<Rightarrow> string" where
  "join_paragraphs [] = []"
| "join_paragraphs [x] = x"
| "join_paragraphs (x # y # ys) = x @ [CHR 0x0A, CHR 0x0A] @ join_paragraphs (y # ys)"

definition get_yahoo_finance_news ::
  "('w, 'd) env \<Rightarrow> config \<Rightarrow> string \<Rightarrow> 'w machine \<Rightarrow> (py_exc + py_ret) \<times> 'w machine" where
  "get_yahoo_finance_news env cfg ticker m0 =
     (let cache_key = [PyStr ''get_yahoo_finance_news'', PyStr ticker]
      in case check_cache_and_limits env cfg cache_key ticker m0 of
           (Some r, m1) \<Rightarrow> (r, m1)
         | (None, m1) \<Rightarrow>
        (case lookup_isin env cfg ''getting news'' ticker m1 of
           (Some text, m2) \<Rightarrow> (Inr (RStr text), m2)
         | (None, m2) \<Rightarrow>
        (case run_fetch env cfg ''news'' (upstream env ticker ''news'' []) m2 of
           (Inl e, m3) \<Rightarrow> (Inr (RStr (error_message ''getting news'' ticker e)), m3)
         | (Inr news, m3) \<Rightarrow>
        (case story_lines env news of
           Inl e \<Rightarrow> (Inl e, m3)
         | Inr news_list \<Rightarrow>
             if news_list = [] then
               (Inr (RStr (''No news found for company that searched with '' @ ticker
                            @ '' ticker.'')), m3)
             else store_and_return env cfg cache_key (join_paragraphs news_list) m3))))"

definition get_stock_actions ::
  "('w, 'd) env \<Rightarrow> config \<Rightarrow> string \<Rightarrow> 'w machine \<Rightarrow> (py_exc + py_ret) \<times> 'w machine" where
  "get_stock_actions env cfg ticker m0 =
     (let cache_key = [PyStr ''get_stock_actions'', PyStr ticker]
      in case check_cache_and_limits env cfg cache_key ticker m0 of
           (Some r, m1) \<Rightarrow> (r, m1)
         | (None, m1) \<Rightarrow>
        (case run_fetch env cfg ''actions'' (upstream env ticker ''actions'' []) m1 of
           (Inl e, m2) \<Rightarrow> (Inr (RStr (error_message ''getting stock actions'' ticker e)), m2)
         | (Inr actions_df, m2) \<Rightarrow>
        (case render env ''reset_index(names=Date).to_json(orient=records, date_format=iso)''
                actions_df of
           Inl e \<Rightarrow> (Inl e, m2)
         | Inr result \<Rightarrow> store_and_return env cfg cache_key result m2)))"

text \<open>The members of the three enumerations (each member is the string of its name).\<close>

definition FinancialType :: "string list" where
  "FinancialType = [''income_stmt'', ''quarterly_income_stmt'', ''balance_sheet'',
                    ''quarterly_balance_sheet'', ''cashflow'', ''quarterly_cashflow'']"

definition HolderType :: "string list" where
  "HolderType = [''major_holders'', ''institutional_holders'', ''mutualfund_holders'',
                 ''insider_transactions'', ''insider_purchases'', ''insider_roster_holders'']"

definition RecommendationType :: "string list" where
  "RecommendationType = [''recommendations'', ''upgrades_downgrades'']"

text \<open>\<open>", ".join\<close> of the members as an f-string renders them.\<close>

fun join_commas :: "string list \<Rightarrow> string" where
  "join_commas [] = []"
| "join_commas [x] = x"
| "join_commas (x # y # ys) = x @ '', '' @ join_commas (y # ys)"

definition invalid_financial_type_message :: "('w, 'd) env \<Rightarrow> string \<Rightarrow> string" where
  "invalid_financial_type_message env financial_type =
     ''Error: invalid financial type '' @ financial_type
       @ ''. Please use one of the following: ''
       @ join_commas (map (fmt_enum env ''FinancialType'') FinancialType) @ ''.''"

definition invalid_holder_type_message :: "('w, 'd) env \<Rightarrow> string \<Rightarrow> string" where
  "invalid_holder_type_message env holder_type =
     ''Error: invalid holder type '' @ holder_type
       @ ''. Please use one of the following: ''
       @ join_commas (map (fmt_enum env ''HolderType'') HolderType) @ ''.''"

text \<open>The chain of comparisons of \<open>get_financial_statement\<close>: the attribute to fetch.\<close>

definition financial_attribute :: "string \<Rightarrow> string option" where
  "financial_attribute financial_type =
     (if financial_type = ''income_stmt'' then Some ''income_stmt''
      else if financial_type = ''quarterly_income_stmt'' then Some ''quarterly_income_stmt''
      else if financial_type = ''balance_sheet'' then Some ''balance_sheet''
      else if financial_type = ''quarterly_balance_sheet'' then Some ''quarterly_balance_sheet''
      else if financial_type = ''cashflow'' then Some ''cashflow''
      else if financial_type = ''quarterly_cashflow'' then Some ''quarterly_cashflow''
      else None)"

definition get_financial_statement ::
  "('w, 'd) env \<Rightarrow> config \<Rightarrow> string \<Rightarrow> string \<Rightarrow> 'w machine
     \<Rightarrow> (py_exc + py_ret) \<times> 'w machine" where
  "get_financial_statement env cfg ticker financial_type m0 =
     (let cache_key = [PyStr ''get_financial_statement'', PyStr ticker, PyStr financial_type]
      in case check_cache_and_limits env cfg cache_key ticker m0 of
           (Some r, m1) \<Rightarrow> (r, m1)
         | (None, m1) \<Rightarrow>
        (case lookup_isin env cfg ''getting financial statement'' ticker m1 of
           (Some text, m2) \<Rightarrow> (Inr (RStr text), m2)
         | (None, m2) \<Rightarrow>
        (case financial_attribute financial_type of
           None \<Rightarrow> (Inr (RStr (invalid_financial_type_message env financial_type)), m2)
         | Some name \<Rightarrow>
        (case run_fetch env cfg name (upstream env ticker name []) m2 of
           (Inl e, m3) \<Rightarrow> (Inr (RStr (error_message ''getting financial statement'' ticker e)), m3)
         | (Inr financial_statement, m3) \<Rightarrow>
        (case render env ''statement columns to json.dumps'' financial_statement of
           Inl e \<Rightarrow> (Inl e, m3)
         | Inr result_json \<Rightarrow> store_and_return env cfg cache_key result_json m3)))))"

text \<open>The chain of comparisons of \<open>get_holder_info\<close>: the attribute to fetch and its
  conversion, both inside the retried call.\<close>

definition holder_attribute :: "string \<Rightarrow> (string \<times> string) option" where
  "holder_attribute holder_type =
     (if holder_type = ''major_holders''
        then Some (''major_holders'', ''reset_index(names=metric).to_json(orient=records)'')
      else if holder_type = ''institutional_holders''
        then Some (''institutional_holders'', ''to_json(orient=records)'')
      else if holder_type = ''mutualfund_holders''
        then Some (''mutualfund_holders'', ''to_json(orient=records, date_format=iso)'')
      else if holder_type = ''insider_transactions''
        then Some (''insider_transactions'', ''to_json(orient=records, date_format=iso)'')
      else if holder_type = ''insider_purchases''
        then Some (''insider_purchases'', ''to_json(orient=records, date_format=iso)'')
      else if holder_type = ''insider_roster_holders''
        then Some (''insider_roster_holders'', ''to_json(orient=records, date_format=iso)'')
      else None)"

definition get_holder_info ::
  "('w, 'd) env \<Rightarrow> config \<Rightarrow> string \<Rightarrow> string \<Rightarrow> 'w machine
     \<Rightarrow> (py_exc + py_ret) \<times> 'w machine" where
  "get_holder_info env cfg ticker holder_type m0 =
     (let cache_key = [PyStr ''get_holder_info'', PyStr ticker, PyStr holder_type]
      in case check_cache_and_limits env cfg cache_key ticker m0 of
           (Some r, m1) \<Rightarrow> (r, m1)
         | (None, m1) \<Rightarrow>
        (case lookup_isin env cfg ''getting holder info'' ticker m1 of
           (Some text, m2) \<Rightarrow> (Inr (RStr text), m2)
         | (None, m2) \<Rightarrow>
        (case holder_attribute holder_type of
           None \<Rightarrow> (Inr (RStr (invalid_holder_type_message env holder_type)), m2)
         | Some (name, how) \<Rightarrow>
        (case run_fetch env cfg name (fetch_and_render env ticker name how) m2 of
           (Inl e, m3) \<Rightarrow> (Inr (RStr (error_message ''getting holder info'' ticker e)), m3)
         | (Inr result, m3) \<Rightarrow> store_and_return env cfg cache_key result m3))))"

definition get_option_expiration_dates ::
  "('w, 'd) env \<Rightarrow> config \<Rightarrow> string \<Rightarrow> 'w machine \<Rightarrow> (py_exc + py_ret) \<times> 'w machine" where
  "get_option_expiration_dates env cfg ticker m0 =
     (let cache_key = [PyStr ''get_option_expiration_dates'', PyStr ticker]
      in case check_cache_and_limits env cfg cache_key ticker m0 of
           (Some r, m1) \<Rightarrow> (r, m1)
         | (None, m1) \<Rightarrow>
        (case lookup_isin env cfg ''getting option expiration dates'' ticker m1 of
           (Some text, m2) \<Rightarrow> (Inr (RStr text), m2)
         | (None, m2) \<Rightarrow>
        (case run_fetch env cfg ''options'' (upstream env ticker ''options'' []) m2 of
           (Inl e, m3) \<Rightarrow> (Inr (RStr (error_message ''getting option expiration dates'' ticker e)), m3)
         | (Inr options, m3) \<Rightarrow>
        (case render env ''json.dumps'' options of
           Inl e \<Rightarrow> (Inl e, m3)
         | Inr result \<Rightarrow> store_and_return env cfg cache_key result m3))))"

definition get_option_chain ::
  "('w, 'd) env \<Rightarrow> config \<Rightarrow> string \<Rightarrow> string \<Rightarrow> string \<Rightarrow> 'w machine
     \<Rightarrow> (py_exc + py_ret) \<times> 'w machine" where
  "get_option_chain env cfg ticker expiration_date option_type m0 =
     (let cache_key = [PyStr ''get_option_chain'', PyStr ticker, PyStr expiration_date,
                       PyStr option_type]
      in case check_cache_and_limits env cfg cache_key ticker m0 of
           (Some r, m1) \<Rightarrow> (r, m1)
         | (None, m1) \<Rightarrow>
        (case lookup_isin env cfg ''getting option chain'' ticker m1 of
           (Some text, m2) \<Rightarrow> (Inr (RStr text), m2)
         | (None, m2) \<Rightarrow>
        (case run_fetch env cfg ''options'' (upstream env ticker ''options'' []) m2 of
           (Inl e, m3) \<Rightarrow> (Inr (RStr (error_message ''getting option chain'' ticker e)), m3)
         | (Inr options, m3) \<Rightarrow>
        if expiration_date \<notin> set (option_dates env options) then
          (Inr (RStr (''Error: No options available for the date '' @ expiration_date
             @ ''. You can use `get_option_expiration_dates` to get the available expiration dates.'')),
           m3)
        else if option_type \<notin> set [''calls'', ''puts''] then
          (Inr (RStr ''Error: Invalid option type. Please use 'calls' or 'puts'.''), m3)
        else
        (case run_fetch env cfg ''option_chain''
                (upstream env ticker ''option_chain'' [expiration_date]) m3 of
           (Inl e, m4) \<Rightarrow> (Inr (RStr (error_message ''getting option chain'' ticker e)), m4)
         | (Inr option_chain, m4) \<Rightarrow>
        if option_type = ''calls'' then
          (case render env ''calls.to_json(orient=records, date_format=iso)'' option_chain of
             Inl e \<Rightarrow> (Inl e, m4)
           | Inr result \<Rightarrow> store_and_return env cfg cache_key result m4)
        else if option_type = ''puts'' then
          (case render env ''puts.to_json(orient=records, date_format=iso)'' option_chain of
             Inl e \<Rightarrow> (Inl e, m4)
           | Inr result \<Rightarrow> store_and_return env cfg cache_key result m4)
        else
          (Inr (RStr (''Error: invalid option type '' @ option_type
             @ ''. Please use one of the following: calls, puts.'')), m4)))))"

text \<open>
  \<open>get_recommendations\<close>. After the ISIN lookup everything is inside one \<open>try\<close>, whose
  \<open>except\<close> returns the error string. The \<open>if\<close> has a branch for each of the two
  recommendation types and no \<open>else\<close>: with any other type the function reaches its end.
\<close>

definition get_recommendations ::
  "('w, 'd) env \<Rightarrow> config \<Rightarrow> string \<Rightarrow> string \<Rightarrow> int \<Rightarrow> 'w machine
     \<Rightarrow> (py_exc + py_ret) \<times> 'w machine" where
  "get_recommendations env cfg ticker recommendation_type months_back m0 =
     (let cache_key = [PyStr ''get_recommendations'', PyStr ticker, PyStr recommendation_type,
                       PyInt months_back]
      in case check_cache_and_limits env cfg cache_key ticker m0 of
           (Some r, m1) \<Rightarrow> (r, m1)
         | (None, m1) \<Rightarrow>
        (case lookup_isin env cfg ''getting recommendations'' ticker m1 of
           (Some text, m2) \<Rightarrow> (Inr (RStr text), m2)
         | (None, m2) \<Rightarrow>
        if recommendation_type = ''recommendations'' then
          (case run_fetch env cfg ''recommendations''
                  (fetch_and_render env ticker ''recommendations'' ''to_json(orient=records)'') m2 of
             (Inl e, m3) \<Rightarrow> (Inr (RStr (error_message ''getting recommendations'' ticker e)), m3)
           | (Inr result, m3) \<Rightarrow> store_and_return env cfg cache_key result m3)
        else if recommendation_type = ''upgrades_downgrades'' then
          (case run_fetch env cfg ''upgrades_downgrades''
                  (upstream env ticker ''upgrades_downgrades'' []) m2 of
             (Inl e, m3) \<Rightarrow> (Inr (RStr (error_message ''getting recommendations'' ticker e)), m3)
           | (Inr upgrades_downgrades, m3) \<Rightarrow>
          (case recent_upgrades_json env months_back upgrades_downgrades (world m3) of
             (Inl e, w) \<Rightarrow>
               (Inr (RStr (error_message ''getting recommendations'' ticker e)), m3\<lparr>world := w\<rparr>)
           | (Inr result, w) \<Rightarrow> store_and_return env cfg cache_key result (m3\<lparr>world := w\<rparr>)))
        else (Inr RNone, m2)))"

subsection \<open>Tool calls\<close>

text \<open>A call of one of the nine registered tools with its arguments, the handler it
  runs, and the cache key the handler builds for it.\<close>

datatype tool_call =
    GetHistoricalStockPrices string string string
  | GetStockInfo string
  | GetYahooFinanceNews string
  | GetStockActions string
  | GetFinancialStatement string string
  | GetHolderInfo string string
  | GetOptionExpirationDates string
  | GetOptionChain string string string
  | GetRecommendations string string int

fun call_tool ::
  "('w, 'd) env \<Rightarrow> config \<Rightarrow> tool_call \<Rightarrow> 'w machine \<Rightarrow> (py_exc + py_ret) \<times> 'w machine" where
  "call_tool env cfg (GetHistoricalStockPrices ticker period interval) m =
     get_historical_stock_prices env cfg ticker period interval m"
| "call_tool env cfg (GetStockInfo ticker) m = get_stock_info env cfg ticker m"
| "call_tool env cfg (GetYahooFinanceNews ticker) m = get_yahoo_finance_news env cfg ticker m"
| "call_tool env cfg (GetStockActions ticker) m = get_stock_actions env cfg ticker m"
| "call_tool env cfg (GetFinancialStatement ticker financial_type) m =
     get_financial_statement env cfg ticker financial_type m"
| "call_tool env cfg (GetHolderInfo ticker holder_type) m =
     get_holder_info env cfg ticker holder_type m"
| "call_tool env cfg (GetOptionExpirationDates ticker) m =
     get_option_expiration_dates env cfg ticker m"
| "call_tool env cfg (GetOptionChain ticker expiration_date option_type) m =
     get_option_chain env cfg ticker expiration_date option_type m"
| "call_tool env cfg (GetRecommendations ticker recommendation_type months_back) m =
     get_recommendations env cfg ticker recommendation_type months_back m"

fun cache_key_of :: "tool_call \<Rightarrow> cache_key" where
  "cache_key_of (GetHistoricalStockPrices ticker period interval) =
     [PyStr ''get_historical_stock_prices'', PyStr ticker, PyStr period, PyStr interval]"
| "cache_key_of (GetStockInfo ticker) = [PyStr ''get_stock_info'', PyStr ticker]"
| "cache_key_of (GetYahooFinanceNews ticker) = [PyStr ''get_yahoo_finance_news'', PyStr ticker]"
| "cache_key_of (GetStockActions ticker) = [PyStr ''get_stock_actions'', PyStr ticker]"
| "cache_key_of (GetFinancialStatement ticker financial_type) =
     [PyStr ''get_financial_statement'', PyStr ticker, PyStr financial_type]"
| "cache_key_of (GetHolderInfo ticker holder_type) =
     [PyStr ''get_holder_info'', PyStr ticker, PyStr holder_type]"
| "cache_key_of (GetOptionExpirationDates ticker) =
     [PyStr ''get_option_expiration_dates'', PyStr ticker]"
| "cache_key_of (GetOptionChain ticker expiration_date option_type) =
     [PyStr ''get_option_chain'', PyStr ticker, PyStr expiration_date, PyStr option_type]"
| "cache_key_of (GetRecommendations ticker recommendation_type months_back) =
     [PyStr ''get_recommendations'', PyStr ticker, PyStr recommendation_type, PyInt months_back]"

text \<open>A sequence of tool calls, one after the other. A call that raises leaves the
  server running, with the module state the call left.\<close>

fun run_calls :: "('w, 'd) env \<Rightarrow> config \<Rightarrow> tool_call list \<Rightarrow> 'w machine \<Rightarrow> 'w machine" where
  "run_calls env cfg [] m = m"
| "run_calls env cfg (c # cs) m = run_calls env cfg cs (snd (call_tool env cfg c m))"

subsection \<open>Predicates and inputs used by the properties\<close>

text \<open>An effect that concerns the attribute \<open>name\<close>: a fetch of it, or a sleep between two
  attempts to fetch it.\<close>

fun about :: "string \<Rightarrow> effect \<Rightarrow> bool" where
  "about name (Fetch n outcome) = (n = name)"
| "about name (Sleep d) = True"

text \<open>Every entry of the cache of \<open>m'\<close> is an entry of the cache of \<open>m\<close>.\<close>

definition cache_within :: "'w machine \<Rightarrow> 'w machine \<Rightarrow> bool" where
  "cache_within m' m \<longleftrightarrow>
     (\<forall>k e v. cache (mem m') k = Some (e, v) \<longrightarrow> cache (mem m) k = Some (e, v))"

text \<open>\<open>P\<close> holds of every text that a conversion of the provider's data can produce on
  a path that stores its result: the payloads.\<close>

definition renders_satisfy :: "('w, 'd) env \<Rightarrow> (string \<Rightarrow> bool) \<Rightarrow> bool" where
  "renders_satisfy env P \<longleftrightarrow>
     (\<forall>how d v. render env how d = Inr v \<longrightarrow> P v) \<and>
     (\<forall>d news_list. story_lines env d = Inr news_list \<and> news_list \<noteq> [] \<longrightarrow>
         P (join_paragraphs news_list)) \<and>
     (\<forall>n d w v w'. recent_upgrades_json env n d w = (Inr v, w') \<longrightarrow> P v)"

text \<open>Every entry of the cache after the call was there before, or is the entry of
  \<open>key\<close>, holds the string the call returned, and that string satisfies \<open>P\<close>.\<close>

definition stores_only_payload ::
  "(string \<Rightarrow> bool) \<Rightarrow> cache_key \<Rightarrow> 'w machine \<Rightarrow> (py_exc + py_ret) \<Rightarrow> 'w machine \<Rightarrow> bool" where
  "stores_only_payload P key m res m' \<longleftrightarrow>
     (\<forall>k e v. cache (mem m') k = Some (e, v) \<longrightarrow>
        cache (mem m) k = Some (e, v) \<or> (k = key \<and> res = Inr (RStr v) \<and> P v))"

text \<open>The sentences a handler returns in place of a payload.\<close>

definition is_status_sentence :: "string \<Rightarrow> bool" where
  "is_status_sentence text \<longleftrightarrow>
     starts_with ''Rate limited.'' text \<or> starts_with ''Company ticker '' text \<or>
     starts_with ''Error: '' text \<or> starts_with ''No news found '' text"

text \<open>
  An outside world on which the theorems are instantiated. Its state is a counter: the
  clock reads half the counter, in seconds, and advances the counter by one. The provider knows every
  ticker but NOPE, answers every request with the name of the attribute, and every
  conversion gives an empty JSON array.
\<close>

definition demo_env :: "(nat, string) env" where
  "demo_env =
     \<lparr>monotonic = (\<lambda>w. (real w / 2, Suc w)),
      random_unit = (\<lambda>w. (1 / 2, w)),
      fmt_1f = (\<lambda>r. ''1.0''),
      fmt_enum = (\<lambda>cls member. member),
      upstream = (\<lambda>ticker name args w. (Inr (if ticker = ''NOPE'' then ''None'' else name), w)),
      is_none = (\<lambda>d. d = ''None''),
      render = (\<lambda>how d. Inr ''[]''),
      story_lines = (\<lambda>d. Inr [''Title: t'']),
      option_dates = (\<lambda>d. [''2026-01-16'']),
      recent_upgrades_json = (\<lambda>months_back d w. (Inr ''[]'', w))\<rparr>"

definition start :: "nat machine" where
  "start = \<lparr>mem = initial_state, world = 0, effects = []\<rparr>"

text \<open>The machine after \<open>get_stock_info("AAPL")\<close> has run from \<open>start\<close>, with its effects
  cleared.\<close>

definition after_stock_info :: "nat machine" where
  "after_stock_info =
     \<lparr>mem = \<lparr>global_request_timestamps = [1 / 2], last_ticker_request = [''AAPL'' \<mapsto> 1 / 2],
             cache = [[PyStr ''get_stock_info'', PyStr ''AAPL''] \<mapsto> (61, ''[]'')]\<rparr>,
      world = 3, effects = []\<rparr>"

section \<open>Properties of the limiters\<close>

lemma prune_loop_sorted_filter:
  "sorted ts \<Longrightarrow> prune_loop c ts = filter (\<lambda>t. \<not> t < c) ts"
proof (induction ts)
  case Nil
  show ?case by simp
next
  case (Cons t ts)
  show ?case
  proof (cases "t < c")
    case True
    with Cons show ?thesis by simp
  next
    case False
    with Cons.prems have "\<forall>u \<in> set ts. \<not> u < c" by auto
    then have "filter (\<lambda>t. \<not> t < c) ts = ts" by (simp add: filter_id_conv)
    with False show ?thesis by simp
  qed
qed

lemma prune_loop_suffix: "\<exists>dropped. ts = dropped @ prune_loop c ts \<and> (\<forall>t \<in> set dropped. t < c)"
proof (induction ts)
  case Nil
  show ?case by simp
next
  case (Cons t ts)
  show ?case
  proof (cases "t < c")
    case True
    from Cons obtain d where d: "ts = d @ prune_loop c ts" "\<forall>t \<in> set d. t < c" by blast
    have "t # ts = (t # d) @ prune_loop c (t # ts)" using True d(1) by simp
    moreover have "\<forall>u \<in> set (t # d). u < c" using True d(2) by simp
    ultimately show ?thesis by blast
  next
    case False
    then have "t # ts = [] @ prune_loop c (t # ts)" by simp
    then show ?thesis by (metis empty_iff list.set(1))
  qed
qed

lemma prune_loop_sorted: "sorted ts \<Longrightarrow> sorted (prune_loop c ts)"
  by (simp add: prune_loop_sorted_filter sorted_wrt_filter)

lemma prune_loop_set: "set (prune_loop c ts) \<subseteq> set ts"
  by (induction ts) auto

text \<open>The list stays oldest first: under a clock that does not run backwards, a check
  leaves a sorted list with no entry later than \<open>now\<close>.\<close>

lemma rate_limit_check_keeps_sorted:
  assumes "sorted (global_request_timestamps s)"
    and "\<forall>t \<in> set (global_request_timestamps s). t \<le> now"
    and "rate_limit_check fmt cfg ticker now s = (r, s')"
  shows "sorted (global_request_timestamps s') \<and>
         (\<forall>t \<in> set (global_request_timestamps s'). t \<le> now)"
proof -
  let ?p = "prune_loop (now - GLOBAL_WINDOW_SECONDS cfg) (global_request_timestamps s)"
  have sp: "sorted ?p" using assms(1) by (rule prune_loop_sorted)
  have bp: "\<forall>t \<in> set ?p. t \<le> now" using assms(2) prune_loop_set by blast
  have "global_request_timestamps s' = ?p \<or> global_request_timestamps s' = ?p @ [now]"
    using assms(3)
    by (auto simp: rate_limit_check_def prune_global_timestamps_def record_request_def Let_def
        split: if_splits list.splits option.splits)
  then show ?thesis
  proof
    assume "global_request_timestamps s' = ?p"
    with sp bp show ?thesis by simp
  next
    assume "global_request_timestamps s' = ?p @ [now]"
    with sp bp show ?thesis by (simp add: sorted_append)
  qed
qed

lemma prune_global_timestamps_frame:
  "last_ticker_request (prune_global_timestamps cfg now s) = last_ticker_request s \<and>
   cache (prune_global_timestamps cfg now s) = cache s"
  by (simp add: prune_global_timestamps_def)






text \<open>
  Claim C9. When the check rejects, by the global window or by the per-ticker interval,
  the state it leaves is the pruned state: the per-ticker map and the cache are
  unchanged, and the global list is the old list without a prefix of expired
  timestamps, with nothing appended.
\<close>

theorem rejection_mutates_nothing:
  assumes "rate_limit_check fmt cfg ticker now s = (Inr (True, message), s')"
  shows "s' = prune_global_timestamps cfg now s \<and>
         last_ticker_request s' = last_ticker_request s \<and> cache s' = cache s \<and>
         (\<exists>dropped. global_request_timestamps s = dropped @ global_request_timestamps s' \<and>
            (\<forall>t \<in> set dropped. t < now - GLOBAL_WINDOW_SECONDS cfg))"
proof -
  have s': "s' = prune_global_timestamps cfg now s"
    using assms
    by (auto simp: rate_limit_check_def Let_def split: if_splits list.splits option.splits)
  have "\<exists>dropped. global_request_timestamps s = dropped @ global_request_timestamps s' \<and>
            (\<forall>t \<in> set dropped. t < now - GLOBAL_WINDOW_SECONDS cfg)"
    unfolding s' using prune_loop_suffix [of "global_request_timestamps s"]
    by (simp add: prune_global_timestamps_def)
  with s' prune_global_timestamps_frame [of cfg now s] show ?thesis by simp
qed

theorem rejection_mutates_nothing_witness:
  "(let s = \<lparr>global_request_timestamps = [-70, 10], last_ticker_request = [''AAPL'' \<mapsto> 10],
             cache = Map.empty\<rparr>;
        s' = snd (rate_limit_check (\<lambda>r. ''1.0'') default_config ''AAPL'' 11 s)
    in fst (rate_limit_check (\<lambda>r. ''1.0'') default_config ''AAPL'' 11 s)
         = Inr (True, Some ''Rate limited. Try after 1.0s.'') \<and>
       global_request_timestamps s' = [10] \<and> last_ticker_request s' = [''AAPL'' \<mapsto> 10] \<and>
       cache s' = Map.empty)"
proof -
  let ?s = "\<lparr>global_request_timestamps = [-70, 10], last_ticker_request = [''AAPL'' \<mapsto> 10],
             cache = Map.empty\<rparr>"
  let ?s' = "\<lparr>global_request_timestamps = [10], last_ticker_request = [''AAPL'' \<mapsto> 10],
             cache = Map.empty\<rparr>"
  have run: "rate_limit_check (\<lambda>r. ''1.0'') default_config ''AAPL'' 11 ?s
               = (Inr (True, Some ''Rate limited. Try after 1.0s.''), ?s')"
    by (simp add: rate_limit_check_def prune_global_timestamps_def default_config_def
        rate_limited_message_def Let_def)
  have "last_ticker_request ?s' = last_ticker_request ?s \<and> cache ?s' = cache ?s"
    using rejection_mutates_nothing [OF run] by blast
  then show ?thesis by (simp add: run Let_def)
qed

section \<open>Properties of the cache\<close>

text \<open>
  Claim C5. A lookup made before \<open>CACHE_TTL_SECONDS\<close> have passed since the store (in
  particular at once, for a positive time to live) returns the stored value. A store
  sets the entry of the key to the new value with expiry \<open>now + CACHE_TTL_SECONDS\<close>,
  whatever the key held before. A lookup at or after the expiry of the entry reports
  absent and removes the entry. A lookup that returns a value returns the value of an
  entry whose expiry is still ahead, and changes nothing.
\<close>

theorem cache_contract:
  "(now' < now + CACHE_TTL_SECONDS cfg \<longrightarrow>
      cache_get k now' (cache_set cfg k v now s) = (Some v, cache_set cfg k v now s)) \<and>
   (0 < CACHE_TTL_SECONDS cfg \<longrightarrow> fst (cache_get k now (cache_set cfg k v now s)) = Some v) \<and>
   cache (cache_set cfg k v now s) = (cache s)(k \<mapsto> (now + CACHE_TTL_SECONDS cfg, v)) \<and>
   (\<forall>expires_at w. cache s k = Some (expires_at, w) \<and> expires_at \<le> now \<longrightarrow>
      cache_get k now s = (None, s\<lparr>cache := (cache s)(k := None)\<rparr>)) \<and>
   (\<forall>w s'. cache_get k now s = (Some w, s') \<longrightarrow>
      s' = s \<and> (\<exists>expires_at. cache s k = Some (expires_at, w) \<and> now < expires_at))"
  by (auto simp: cache_get_def cache_set_def Let_def split: option.splits if_splits)

theorem cache_contract_witness:
  "(let k = [PyStr ''get_stock_info'', PyStr ''AAPL''];
        s = cache_set default_config k ''old'' 0 initial_state;
        s2 = cache_set default_config k ''new'' 5 s
    in cache_get k 5 s2 = (Some ''new'', s2) \<and>
       cache s2 k = Some (65, ''new'') \<and>
       cache_get k 64 s2 = (Some ''new'', s2) \<and>
       cache_get k 65 s2 = (None, s2\<lparr>cache := Map.empty\<rparr>))"
proof -
  let ?k = "[PyStr ''get_stock_info'', PyStr ''AAPL'']"
  let ?s = "cache_set default_config ?k ''old'' 0 initial_state"
  let ?s2 = "cache_set default_config ?k ''new'' 5 ?s"
  have ttl: "CACHE_TTL_SECONDS default_config = 60" by (simp add: default_config_def)
  have a: "cache_get ?k 5 ?s2 = (Some ''new'', ?s2)"
    using cache_contract [of 5 5 default_config ?k "''new''" ?s, THEN conjunct1] ttl by simp
  have c: "cache_get ?k 64 ?s2 = (Some ''new'', ?s2)"
    using cache_contract [of 64 5 default_config ?k "''new''" ?s, THEN conjunct1] ttl by simp
  have e: "cache ?s2 = [?k \<mapsto> (65, ''new'')]"
    by (simp add: cache_set_def initial_state_def ttl)
  have d: "cache_get ?k 65 ?s2 = (None, ?s2\<lparr>cache := Map.empty\<rparr>)"
    using cache_contract [of 65 65 default_config ?k "''new''" ?s2, THEN conjunct2, THEN conjunct2,
        THEN conjunct2, THEN conjunct1] e by simp
  from a c d e show ?thesis by (simp add: Let_def)
qed

section \<open>Properties of the retry executor\<close>















section \<open>Properties of the handlers\<close>

lemma read_clock_frame:
  "read_clock env m = (now, m') \<Longrightarrow>
     m' = m\<lparr>world := snd (monotonic env (world m))\<rparr> \<and> now = fst (monotonic env (world m))"
  by (auto simp: read_clock_def split: prod.splits)

lemma about_erase: "about name (erase name ev)"
  by (cases "(name, ev)" rule: erase.cases) auto

lemma run_fetch_mem: "run_fetch env cfg name fetcher m = (r, m') \<Longrightarrow> mem m' = mem m"
  by (auto simp: run_fetch_def split: prod.splits)

lemma run_fetch_effects:
  "run_fetch env cfg name fetcher m = (r, m') \<Longrightarrow>
     \<exists>new. effects m' = effects m @ new \<and> list_all (about name) new"
  by (auto simp: run_fetch_def list_all_iff about_erase split: prod.splits)

lemma lookup_isin_mem: "lookup_isin env cfg what ticker m = (r, m') \<Longrightarrow> mem m' = mem m"
  by (auto simp: lookup_isin_def split: prod.splits sum.splits if_splits dest: run_fetch_mem)

lemma lookup_isin_effects:
  "lookup_isin env cfg what ticker m = (r, m') \<Longrightarrow>
     \<exists>new. effects m' = effects m @ new \<and> list_all (about ''isin'') new"
  by (auto simp: lookup_isin_def split: prod.splits sum.splits if_splits dest: run_fetch_effects)

lemma cache_get_within:
  "cache_get key now s = (r, s') \<Longrightarrow>
     (\<forall>k e v. cache s' k = Some (e, v) \<longrightarrow> cache s k = Some (e, v)) \<and>
     global_request_timestamps s' = global_request_timestamps s \<and>
     last_ticker_request s' = last_ticker_request s"
  by (auto simp: cache_get_def split: option.splits if_splits)

lemma rate_limit_check_cache:
  "rate_limit_check fmt cfg ticker now s = (r, s') \<Longrightarrow> cache s' = cache s"
  by (auto simp: rate_limit_check_def prune_global_timestamps_def record_request_def Let_def
      split: if_splits list.splits option.splits)

lemma check_cache_and_limits_within:
  assumes "check_cache_and_limits env cfg key ticker m = (r, m')"
  shows "cache_within m' m \<and> effects m' = effects m"
proof -
  obtain now m1 where c1: "read_clock env m = (now, m1)" by (cases "read_clock env m")
  obtain cached s1 where g: "cache_get key now (mem m1) = (cached, s1)"
    by (cases "cache_get key now (mem m1)")
  obtain now2 m2 where c2: "read_clock env (m1\<lparr>mem := s1\<rparr>) = (now2, m2)"
    by (cases "read_clock env (m1\<lparr>mem := s1\<rparr>)")
  obtain rl s2 where rl: "rate_limit_check (fmt_1f env) cfg ticker now2 (mem m2) = (rl, s2)"
    by (cases "rate_limit_check (fmt_1f env) cfg ticker now2 (mem m2)")
  from read_clock_frame [OF c1] have m1: "mem m1 = mem m" "effects m1 = effects m" by simp_all
  from read_clock_frame [OF c2] have m2: "mem m2 = s1" "effects m2 = effects m" using m1 by simp_all
  from cache_get_within [OF g] m1
  have w1: "\<forall>k e v. cache s1 k = Some (e, v) \<longrightarrow> cache (mem m) k = Some (e, v)" by simp
  from rate_limit_check_cache [OF rl] m2 have w2: "cache s2 = cache s1" by simp
  have "m' = m1\<lparr>mem := s1\<rparr> \<or> m' = m2\<lparr>mem := s2\<rparr>"
    using assms c1 g c2 rl
    by (auto simp: check_cache_and_limits_def split: option.splits sum.splits if_splits)
  then show ?thesis
    using w1 w2 m1 m2 by (auto simp: cache_within_def)
qed

lemma check_cache_and_limits_hit:
  assumes "monotonic env (world m) = (now, w)"
    and "cache (mem m) key = Some (expires_at, v)" and "now < expires_at"
  shows "check_cache_and_limits env cfg key ticker m = (Some (Inr (RStr v)), m\<lparr>world := w\<rparr>)"
  using assms by (simp add: check_cache_and_limits_def read_clock_def cache_get_def)

lemma store_and_return_cache:
  assumes "store_and_return env cfg key v m = (res, m')"
  shows "res = Inr (RStr v) \<and> effects m' = effects m \<and>
         (\<exists>e. cache (mem m') = (cache (mem m))(key \<mapsto> (e, v)))"
  using assms
  by (auto simp: store_and_return_def read_clock_def cache_set_def Let_def split: prod.splits)

lemma retry_loop_success:
  "retry_loop cfg rnd fetcher attempts last_error w = (Inr v, w', evs) \<Longrightarrow>
     \<exists>w0 w1. fetcher w0 = (Inr v, w1)"
proof (induction attempts arbitrary: last_error w evs w')
  case Nil
  then show ?case by (simp split: option.splits)
next
  case (Cons attempt rest)
  obtain o1 w1 where f: "fetcher w = (o1, w1)" by (cases "fetcher w")
  show ?case
  proof (cases o1)
    case (Inr x)
    with Cons.prems f have "x = v" by simp
    with Inr f show ?thesis by blast
  next
    case (Inl exc)
    show ?thesis
    proof (cases "\<not> is_rate_limited_error exc \<or> int attempt \<ge> MAX_RETRIES cfg")
      case True
      with Cons.prems f Inl show ?thesis by simp
    next
      case False
      obtain u w2 where rn: "rnd w1 = (u, w2)" by (cases "rnd w1")
      obtain r2 w3 evs2 where rec:
        "retry_loop cfg rnd fetcher rest (Some exc) w2 = (r2, w3, evs2)"
        by (cases "retry_loop cfg rnd fetcher rest (Some exc) w2") auto
      from Cons.prems f Inl False rn rec have "r2 = Inr v" by (simp add: Let_def)
      with rec Cons.IH show ?thesis by blast
    qed
  qed
qed

lemma run_fetch_rendered:
  assumes "run_fetch env cfg name (fetch_and_render env ticker attr how) m = (Inr v, m')"
  shows "\<exists>d. render env how d = Inr v"
proof -
  from assms obtain w' evs where
    "execute_with_retry cfg (random_unit env) (fetch_and_render env ticker attr how) (world m)
       = (Inr v, w', evs)"
    by (auto simp: run_fetch_def split: prod.splits)
  from retry_loop_success [OF this [unfolded execute_with_retry_def]]
  obtain w0 w1 where "fetch_and_render env ticker attr how w0 = (Inr v, w1)" by blast
  then show ?thesis
    by (auto simp: fetch_and_render_def split: prod.splits sum.splits)
qed

lemma check_cache_and_limits_sub:
  "check_cache_and_limits env cfg key ticker m = (r, m1) \<Longrightarrow>
     \<forall>k e v. cache (mem m1) k = Some (e, v) \<longrightarrow> cache (mem m) k = Some (e, v)"
  using check_cache_and_limits_within [of env cfg key ticker m r m1]
  by (simp add: cache_within_def)

lemma run_fetch_rendered_mem:
  assumes "run_fetch env cfg name (fetch_and_render env ticker attr how) m = (r, m')"
  shows "mem m' = mem m \<and> (\<forall>v. r = Inr v \<longrightarrow> (\<exists>d. render env how d = Inr v))"
  using run_fetch_mem [OF assms] run_fetch_rendered [of env cfg name ticker attr how m _ m'] assms
  by auto

lemma get_holder_info_payload:
  assumes "renders_satisfy env P" and "get_holder_info env cfg ticker holder_type m = (res, m')"
  shows "stores_only_payload P (cache_key_of (GetHolderInfo ticker holder_type)) m res m'"
  using assms
  by (auto simp: get_holder_info_def renders_satisfy_def stores_only_payload_def Let_def
        split: prod.splits option.splits sum.splits if_splits
        dest!: check_cache_and_limits_sub lookup_isin_mem run_fetch_rendered_mem store_and_return_cache)

lemma upgrades_payload:
  "renders_satisfy env P \<Longrightarrow> recent_upgrades_json env n d w = (Inr v, w') \<Longrightarrow> P v"
  unfolding renders_satisfy_def by blast

lemma render_payload:
  "renders_satisfy env P \<Longrightarrow> render env how d = Inr v \<Longrightarrow> P v"
  unfolding renders_satisfy_def by blast

lemma get_recommendations_payload:
  assumes "renders_satisfy env P"
    and "get_recommendations env cfg ticker recommendation_type months_back m = (res, m')"
  shows "stores_only_payload P
           (cache_key_of (GetRecommendations ticker recommendation_type months_back)) m res m'"
proof (cases "recommendation_type = ''recommendations''")
  case True
  with assms(2) show ?thesis
    by (auto simp: get_recommendations_def stores_only_payload_def Let_def
        split: prod.splits option.splits sum.splits if_splits
        dest!: check_cache_and_limits_sub lookup_isin_mem run_fetch_rendered_mem
          store_and_return_cache
        dest: render_payload [OF assms(1)])
next
  case False
  with assms(2) show ?thesis
    by (auto simp: get_recommendations_def stores_only_payload_def Let_def
        split: prod.splits option.splits sum.splits if_splits
        dest!: check_cache_and_limits_sub lookup_isin_mem run_fetch_mem
          store_and_return_cache
        dest: upgrades_payload [OF assms(1)])
qed

lemma get_historical_stock_prices_payload:
  assumes "renders_satisfy env P" and "get_historical_stock_prices env cfg ticker period interval m = (res, m')"
  shows "stores_only_payload P (cache_key_of (GetHistoricalStockPrices ticker period interval)) m res m'"
  using assms
  by (auto simp: get_historical_stock_prices_def renders_satisfy_def stores_only_payload_def Let_def
        split: prod.splits option.splits sum.splits if_splits
        dest!: check_cache_and_limits_sub lookup_isin_mem run_fetch_mem store_and_return_cache)

lemma get_stock_info_payload:
  assumes "renders_satisfy env P" and "get_stock_info env cfg ticker m = (res, m')"
  shows "stores_only_payload P (cache_key_of (GetStockInfo ticker)) m res m'"
  using assms
  by (auto simp: get_stock_info_def renders_satisfy_def stores_only_payload_def Let_def
        split: prod.splits option.splits sum.splits if_splits
        dest!: check_cache_and_limits_sub lookup_isin_mem run_fetch_mem store_and_return_cache)

lemma get_yahoo_finance_news_payload:
  assumes "renders_satisfy env P" and "get_yahoo_finance_news env cfg ticker m = (res, m')"
  shows "stores_only_payload P (cache_key_of (GetYahooFinanceNews ticker)) m res m'"
  using assms
  by (auto simp: get_yahoo_finance_news_def renders_satisfy_def stores_only_payload_def Let_def
        split: prod.splits option.splits sum.splits if_splits
        dest!: check_cache_and_limits_sub lookup_isin_mem run_fetch_mem store_and_return_cache)

lemma get_stock_actions_payload:
  assumes "renders_satisfy env P" and "get_stock_actions env cfg ticker m = (res, m')"
  shows "stores_only_payload P (cache_key_of (GetStockActions ticker)) m res m'"
  using assms
  by (auto simp: get_stock_actions_def renders_satisfy_def stores_only_payload_def Let_def
        split: prod.splits option.splits sum.splits if_splits
        dest!: check_cache_and_limits_sub lookup_isin_mem run_fetch_mem store_and_return_cache)

lemma get_financial_statement_payload:
  assumes "renders_satisfy env P" and "get_financial_statement env cfg ticker financial_type m = (res, m')"
  shows "stores_only_payload P (cache_key_of (GetFinancialStatement ticker financial_type)) m res m'"
  using assms
  by (auto simp: get_financial_statement_def renders_satisfy_def stores_only_payload_def Let_def
        split: prod.splits option.splits sum.splits if_splits
        dest!: check_cache_and_limits_sub lookup_isin_mem run_fetch_mem store_and_return_cache)

lemma get_option_expiration_dates_payload:
  assumes "renders_satisfy env P" and "get_option_expiration_dates env cfg ticker m = (res, m')"
  shows "stores_only_payload P (cache_key_of (GetOptionExpirationDates ticker)) m res m'"
  using assms
  by (auto simp: get_option_expiration_dates_def renders_satisfy_def stores_only_payload_def Let_def
        split: prod.splits option.splits sum.splits if_splits
        dest!: check_cache_and_limits_sub lookup_isin_mem run_fetch_mem store_and_return_cache)

lemma get_option_chain_payload:
  assumes "renders_satisfy env P" and "get_option_chain env cfg ticker expiration_date option_type m = (res, m')"
  shows "stores_only_payload P (cache_key_of (GetOptionChain ticker expiration_date option_type)) m res m'"
  using assms
  by (auto simp: get_option_chain_def renders_satisfy_def stores_only_payload_def Let_def
        split: prod.splits option.splits sum.splits if_splits
        dest!: check_cache_and_limits_sub lookup_isin_mem run_fetch_mem store_and_return_cache)

lemmas run_defs =
  get_historical_stock_prices_def get_stock_info_def get_yahoo_finance_news_def
  get_stock_actions_def get_financial_statement_def get_holder_info_def
  get_option_expiration_dates_def get_option_chain_def get_recommendations_def
  check_cache_and_limits_def read_clock_def cache_get_def cache_set_def
  rate_limit_check_def prune_global_timestamps_def record_request_def
  rate_limited_message_def message_or_default_def lookup_isin_def run_fetch_def
  execute_with_retry_def store_and_return_def error_message_def not_found_message_def
  invalid_financial_type_message_def FinancialType_def financial_attribute_def
  default_config_def demo_env_def initial_state_def Let_def upt_rec

text \<open>
  Claim C1. Whatever the tool and its arguments: when the cache holds an entry under
  the key of the call whose expiry is later than the clock reading of the lookup, the
  call returns the cached string, and the machine it leaves differs from the one it
  found only by that one reading of the clock. The module state is the same (the
  limiters are neither consulted nor changed, whether or not the global window is
  full) and no effect is added (no fetch, no sleep).
\<close>

theorem cache_hit_returns_cached:
  assumes "monotonic env (world m) = (now, w)"
    and "cache (mem m) (cache_key_of call) = Some (expires_at, v)"
    and "now < expires_at"
  shows "call_tool env cfg call m = (Inr (RStr v), m\<lparr>world := w\<rparr>)"
proof -
  have hit: "check_cache_and_limits env cfg (cache_key_of call) ticker m
               = (Some (Inr (RStr v)), m\<lparr>world := w\<rparr>)" for ticker
    using assms by (rule check_cache_and_limits_hit)
  show ?thesis
  proof (cases call)
    case (GetHistoricalStockPrices ticker period interval)
    with hit [of ticker] show ?thesis by (simp add: get_historical_stock_prices_def)
  next
    case (GetStockInfo ticker)
    with hit [of ticker] show ?thesis by (simp add: get_stock_info_def)
  next
    case (GetYahooFinanceNews ticker)
    with hit [of ticker] show ?thesis by (simp add: get_yahoo_finance_news_def)
  next
    case (GetStockActions ticker)
    with hit [of ticker] show ?thesis by (simp add: get_stock_actions_def)
  next
    case (GetFinancialStatement ticker financial_type)
    with hit [of ticker] show ?thesis by (simp add: get_financial_statement_def)
  next
    case (GetHolderInfo ticker holder_type)
    with hit [of ticker] show ?thesis by (simp add: get_holder_info_def)
  next
    case (GetOptionExpirationDates ticker)
    with hit [of ticker] show ?thesis by (simp add: get_option_expiration_dates_def)
  next
    case (GetOptionChain ticker expiration_date option_type)
    with hit [of ticker] show ?thesis by (simp add: get_option_chain_def)
  next
    case (GetRecommendations ticker recommendation_type months_back)
    with hit [of ticker] show ?thesis by (simp add: get_recommendations_def)
  qed
qed

text \<open>With a global window of one request, already used: the cached call still returns
  its cached value, while a call that is not cached is turned away.\<close>

theorem cache_hit_returns_cached_witness:
  "call_tool demo_env (default_config\<lparr>GLOBAL_MAX_REQUESTS := 1\<rparr>) (GetStockInfo ''AAPL'')
      after_stock_info
    = (Inr (RStr ''[]''), after_stock_info\<lparr>world := 4\<rparr>)
   \<and> fst (call_tool demo_env (default_config\<lparr>GLOBAL_MAX_REQUESTS := 1\<rparr>)
           (GetStockActions ''MSFT'') after_stock_info)
    = Inr (RStr ''Rate limited. Try after 1.0s.'')"
proof -
  have "call_tool demo_env (default_config\<lparr>GLOBAL_MAX_REQUESTS := 1\<rparr>) (GetStockInfo ''AAPL'')
          after_stock_info
        = (Inr (RStr ''[]''), after_stock_info\<lparr>world := 4\<rparr>)"
    using cache_hit_returns_cached [of demo_env after_stock_info "3 / 2" 4 "GetStockInfo ''AAPL''" 61
        "''[]''" "default_config\<lparr>GLOBAL_MAX_REQUESTS := 1\<rparr>"]
    by (simp add: demo_env_def after_stock_info_def)
  moreover have "fst (call_tool demo_env (default_config\<lparr>GLOBAL_MAX_REQUESTS := 1\<rparr>)
           (GetStockActions ''MSFT'') after_stock_info)
        = Inr (RStr ''Rate limited. Try after 1.0s.'')"
    by (simp add: run_defs after_stock_info_def)
  ultimately show ?thesis by simp
qed

text \<open>
  Claim C6 fails on \<open>get_recommendations\<close>: with a recommendation type that is neither
  of the two valid ones, and a ticker the provider knows, the handler returns \<open>None\<close>,
  not a string.
\<close>

theorem get_recommendations_returns_None:
  "call_tool demo_env default_config (GetRecommendations ''AAPL'' ''bogus_type'' 12) start
     = (Inr RNone,
        \<lparr>mem = \<lparr>global_request_timestamps = [1 / 2],
                last_ticker_request = [''AAPL'' \<mapsto> 1 / 2],
                cache = Map.empty\<rparr>,
         world = 2, effects = [Fetch ''isin'' None]\<rparr>)"
  by (simp add: run_defs start_def)

text \<open>The same for every outside world and every state: once the call is admitted and
  the ISIN is found, an unknown recommendation type makes the handler return \<open>None\<close>.\<close>

lemma get_recommendations_falls_through:
  assumes "recommendation_type \<notin> set RecommendationType"
    and "check_cache_and_limits env cfg
           (cache_key_of (GetRecommendations ticker recommendation_type months_back)) ticker m
         = (None, m1)"
    and "lookup_isin env cfg ''getting recommendations'' ticker m1 = (None, m2)"
  shows "get_recommendations env cfg ticker recommendation_type months_back m = (Inr RNone, m2)"
  using assms by (simp add: get_recommendations_def RecommendationType_def)

text \<open>
  Claim C7, as amended. For a financial type outside the six valid ones: when the call
  is neither served from the cache nor turned away by the limiters, and the ISIN lookup
  finds the company, \<open>get_financial_statement\<close> returns the error string that names the
  financial type and lists the six valid ones. The cache is as the lookup left it, and
  every effect of the call is a fetch of the ISIN or a sleep between two such fetches:
  no statement is fetched.
\<close>

theorem invalid_financial_type:
  assumes "financial_type \<notin> set FinancialType"
    and "check_cache_and_limits env cfg
           (cache_key_of (GetFinancialStatement ticker financial_type)) ticker m = (None, m1)"
    and "lookup_isin env cfg ''getting financial statement'' ticker m1 = (None, m2)"
  shows "get_financial_statement env cfg ticker financial_type m
           = (Inr (RStr (invalid_financial_type_message env financial_type)), m2) \<and>
         invalid_financial_type_message env financial_type
           = ''Error: invalid financial type '' @ financial_type
               @ ''. Please use one of the following: ''
               @ fmt_enum env ''FinancialType'' ''income_stmt'' @ '', ''
               @ fmt_enum env ''FinancialType'' ''quarterly_income_stmt'' @ '', ''
               @ fmt_enum env ''FinancialType'' ''balance_sheet'' @ '', ''
               @ fmt_enum env ''FinancialType'' ''quarterly_balance_sheet'' @ '', ''
               @ fmt_enum env ''FinancialType'' ''cashflow'' @ '', ''
               @ fmt_enum env ''FinancialType'' ''quarterly_cashflow'' @ ''.'' \<and>
         mem m2 = mem m1 \<and>
         (\<exists>new. effects m2 = effects m @ new \<and> list_all (about ''isin'') new)"
proof -
  have none: "financial_attribute financial_type = None"
    using assms(1) by (simp add: financial_attribute_def FinancialType_def)
  have run: "get_financial_statement env cfg ticker financial_type m
           = (Inr (RStr (invalid_financial_type_message env financial_type)), m2)"
    using assms(2,3) none by (simp add: get_financial_statement_def)
  have msg: "invalid_financial_type_message env financial_type
           = ''Error: invalid financial type '' @ financial_type
               @ ''. Please use one of the following: ''
               @ fmt_enum env ''FinancialType'' ''income_stmt'' @ '', ''
               @ fmt_enum env ''FinancialType'' ''quarterly_income_stmt'' @ '', ''
               @ fmt_enum env ''FinancialType'' ''balance_sheet'' @ '', ''
               @ fmt_enum env ''FinancialType'' ''quarterly_balance_sheet'' @ '', ''
               @ fmt_enum env ''FinancialType'' ''cashflow'' @ '', ''
               @ fmt_enum env ''FinancialType'' ''quarterly_cashflow'' @ ''.''"
    by (simp add: invalid_financial_type_message_def FinancialType_def)
  have e1: "effects m1 = effects m"
    using check_cache_and_limits_within [OF assms(2)] by simp
  from lookup_isin_effects [OF assms(3)] e1
  have eff: "\<exists>new. effects m2 = effects m @ new \<and> list_all (about ''isin'') new" by simp
  from run msg lookup_isin_mem [OF assms(3)] eff show ?thesis by blast
qed

theorem invalid_financial_type_witness:
  "call_tool demo_env default_config (GetFinancialStatement ''AAPL'' ''bogus_type'') start
     = (Inr (RStr (''Error: invalid financial type bogus_type. Please use one of the following: ''
          @ ''income_stmt, quarterly_income_stmt, balance_sheet, quarterly_balance_sheet, ''
          @ ''cashflow, quarterly_cashflow.'')),
        \<lparr>mem = \<lparr>global_request_timestamps = [1 / 2],
                last_ticker_request = [''AAPL'' \<mapsto> 1 / 2],
                cache = Map.empty\<rparr>,
         world = 2, effects = [Fetch ''isin'' None]\<rparr>)"
proof -
  let ?m1 = "\<lparr>mem = \<lparr>global_request_timestamps = [1 / 2],
                last_ticker_request = [''AAPL'' \<mapsto> 1 / 2],
                cache = Map.empty\<rparr>, world = 2, effects = []\<rparr> :: nat machine"
  let ?m2 = "?m1\<lparr>effects := [Fetch ''isin'' None]\<rparr>"
  have a: "''bogus_type'' \<notin> set FinancialType" by (simp add: FinancialType_def)
  have b: "check_cache_and_limits demo_env default_config
             (cache_key_of (GetFinancialStatement ''AAPL'' ''bogus_type'')) ''AAPL'' start
           = (None, ?m1)"
    by (simp add: run_defs start_def)
  have c: "lookup_isin demo_env default_config ''getting financial statement'' ''AAPL'' ?m1
           = (None, ?m2)"
    by (simp add: run_defs)
  have d: "invalid_financial_type_message demo_env ''bogus_type''
           = ''Error: invalid financial type bogus_type. Please use one of the following: ''
          @ ''income_stmt, quarterly_income_stmt, balance_sheet, quarterly_balance_sheet, ''
          @ ''cashflow, quarterly_cashflow.''"
    by (simp add: run_defs)
  from invalid_financial_type [OF a b c] d show ?thesis by simp
qed

text \<open>
  Claim C7 as stated fails: from the initial state the call for AAPL does fetch the ISIN
  upstream before it answers, and the call for a ticker the provider does not know
  returns the not-found sentence, not the invalid-type error.
\<close>

theorem invalid_financial_type_counterexample:
  "effects (snd (call_tool demo_env default_config
       (GetFinancialStatement ''AAPL'' ''bogus_type'') start)) = [Fetch ''isin'' None]
   \<and> fst (call_tool demo_env default_config
       (GetFinancialStatement ''NOPE'' ''bogus_type'') start)
     = Inr (RStr ''Company ticker NOPE not found.'')"
  by (simp add: run_defs start_def)

lemma call_tool_stores_only_payload:
  assumes "renders_satisfy env P" and "call_tool env cfg call m = (res, m')"
  shows "stores_only_payload P (cache_key_of call) m res m'"
proof (cases call)
  case (GetHistoricalStockPrices ticker period interval)
  with assms show ?thesis using get_historical_stock_prices_payload by simp
next
  case (GetStockInfo ticker)
  with assms show ?thesis using get_stock_info_payload by simp
next
  case (GetYahooFinanceNews ticker)
  with assms show ?thesis using get_yahoo_finance_news_payload by simp
next
  case (GetStockActions ticker)
  with assms show ?thesis using get_stock_actions_payload by simp
next
  case (GetFinancialStatement ticker financial_type)
  with assms show ?thesis using get_financial_statement_payload by simp
next
  case (GetHolderInfo ticker holder_type)
  with assms show ?thesis using get_holder_info_payload by simp
next
  case (GetOptionExpirationDates ticker)
  with assms show ?thesis using get_option_expiration_dates_payload by simp
next
  case (GetOptionChain ticker expiration_date option_type)
  with assms show ?thesis using get_option_chain_payload by simp
next
  case (GetRecommendations ticker recommendation_type months_back)
  with assms show ?thesis using get_recommendations_payload by simp
qed

lemma call_tool_keeps_payloads:
  assumes "renders_satisfy env P"
    and "\<forall>k e v. cache (mem m) k = Some (e, v) \<longrightarrow> P v"
  shows "\<forall>k e v. cache (mem (snd (call_tool env cfg call m))) k = Some (e, v) \<longrightarrow> P v"
proof -
  obtain res m' where run: "call_tool env cfg call m = (res, m')"
    by (cases "call_tool env cfg call m")
  from call_tool_stores_only_payload [OF assms(1) run] assms(2) run
  show ?thesis unfolding stores_only_payload_def by fastforce
qed

lemma run_calls_keeps_payloads:
  assumes "renders_satisfy env P"
  shows "(\<forall>k e v. cache (mem m) k = Some (e, v) \<longrightarrow> P v) \<Longrightarrow>
         (\<forall>k e v. cache (mem (run_calls env cfg calls m)) k = Some (e, v) \<longrightarrow> P v)"
proof (induction calls arbitrary: m)
  case Nil
  then show ?case by simp
next
  case (Cons c cs)
  from call_tool_keeps_payloads [OF assms Cons.prems]
  have "\<forall>k e v. cache (mem (snd (call_tool env cfg c m))) k = Some (e, v) \<longrightarrow> P v" .
  from Cons.IH [OF this] show ?case by simp
qed

text \<open>
  Claim C10. Let \<open>P\<close> hold of every payload, that is of every text the conversions of
  the provider's data produce. Then after any tool call every cache entry either was
  in the cache before the call, or is the entry of the call's own key and holds the
  string the call returned, a payload. So a cache whose values are all payloads stays
  so, and after any sequence of calls that starts with an empty cache every cached
  value is a payload: a rate-limit message, a not-found sentence or an error string,
  which no conversion produced, is never stored, and no cache hit returns one.
\<close>

theorem cache_holds_only_payloads:
  assumes "renders_satisfy env P" and "call_tool env cfg call m = (res, m')"
  shows "stores_only_payload P (cache_key_of call) m res m' \<and>
         ((\<forall>k e v. cache (mem m) k = Some (e, v) \<longrightarrow> P v) \<longrightarrow>
          (\<forall>k e v. cache (mem m') k = Some (e, v) \<longrightarrow> P v)) \<and>
         (\<forall>calls m0 k e v. cache (mem m0) = Map.empty \<and>
            cache (mem (run_calls env cfg calls m0)) k = Some (e, v) \<longrightarrow> P v)"
proof (intro conjI)
  show "stores_only_payload P (cache_key_of call) m res m'"
    using assms by (rule call_tool_stores_only_payload)
  show "(\<forall>k e v. cache (mem m) k = Some (e, v) \<longrightarrow> P v) \<longrightarrow>
          (\<forall>k e v. cache (mem m') k = Some (e, v) \<longrightarrow> P v)"
    using call_tool_keeps_payloads [OF assms(1), of m cfg call] assms(2) by simp
  show "\<forall>calls m0 k e v. cache (mem m0) = Map.empty \<and>
            cache (mem (run_calls env cfg calls m0)) k = Some (e, v) \<longrightarrow> P v"
  proof (intro allI impI)
    fix calls and m0 :: "'a machine" and k e v
    assume a: "cache (mem m0) = Map.empty \<and>
            cache (mem (run_calls env cfg calls m0)) k = Some (e, v)"
    then have "\<forall>k e v. cache (mem m0) k = Some (e, v) \<longrightarrow> P v" by simp
    from run_calls_keeps_payloads [OF assms(1) this, of cfg calls] a show "P v" by blast
  qed
qed

text \<open>A first call stores its payload; the next call for the same ticker is turned away
  by the per-ticker throttle and its message is not stored.\<close>

theorem cache_holds_only_payloads_witness:
  "call_tool demo_env default_config (GetStockInfo ''AAPL'') start
     = (Inr (RStr ''[]''), after_stock_info\<lparr>effects := [Fetch ''isin'' None, Fetch ''info'' None]\<rparr>)
   \<and> \<not> is_status_sentence ''[]''
   \<and> call_tool demo_env default_config (GetStockActions ''AAPL'') after_stock_info
     = (Inr (RStr ''Rate limited. Try after 1.0s.''), after_stock_info\<lparr>world := 5\<rparr>)
   \<and> is_status_sentence ''Rate limited. Try after 1.0s.''"
proof -
  let ?m' = "after_stock_info\<lparr>effects := [Fetch ''isin'' None, Fetch ''info'' None]\<rparr>"
  have rs: "renders_satisfy demo_env (\<lambda>v. \<not> is_status_sentence v)"
    by (simp add: renders_satisfy_def demo_env_def is_status_sentence_def)
  have run: "call_tool demo_env default_config (GetStockInfo ''AAPL'') start
               = (Inr (RStr ''[]''), ?m')"
    by (simp add: run_defs start_def after_stock_info_def)
  have stored: "cache (mem ?m') [PyStr ''get_stock_info'', PyStr ''AAPL''] = Some (61, ''[]'')"
    by (simp add: after_stock_info_def)
  have empty: "cache (mem start) [PyStr ''get_stock_info'', PyStr ''AAPL''] = None"
    by (simp add: start_def initial_state_def)
  from cache_holds_only_payloads [OF rs run]
  have "stores_only_payload (\<lambda>v. \<not> is_status_sentence v)
          (cache_key_of (GetStockInfo ''AAPL'')) start (Inr (RStr ''[]'')) ?m'"
    by (elim conjE)
  with stored empty have payload: "\<not> is_status_sentence ''[]''"
    unfolding stores_only_payload_def by fastforce
  have limited: "call_tool demo_env default_config (GetStockActions ''AAPL'') after_stock_info
     = (Inr (RStr ''Rate limited. Try after 1.0s.''), after_stock_info\<lparr>world := 5\<rparr>)"
    by (simp add: run_defs after_stock_info_def)
  have status: "is_status_sentence ''Rate limited. Try after 1.0s.''"
    by (simp add: is_status_sentence_def)
  from run payload limited status show ?thesis by blast
qed

end
